theory Spec2Isabelle
  imports Complex_Main "HOL-Library.Word"
begin

section \<open>Errors raised by the framework\<close>

text \<open>
  The script has no \<^verbatim>\<open>raise\<close> of its own; every error comes out of a framework call.
  A call that can raise returns \<open>error + 'a\<close>, with \<open>Inl\<close> for the exception, and
  \<open>and_then\<close> is the sequencing of two statements with no handler between them.
\<close>

datatype error =
    InvalidArgumentError
  | IndexError
  | KeyError string
  | FrameworkError string

definition and_then :: "error + 'a \<Rightarrow> ('a \<Rightarrow> error + 'b) \<Rightarrow> error + 'b" where
  "and_then m f = (case m of Inl e \<Rightarrow> Inl e | Inr x \<Rightarrow> f x)"

section \<open>Tensors\<close>

text \<open>
  An n-dimensional array (a NumPy array or a TensorFlow tensor) is its shape and its
  elements, read by a multi-index. The element type is the dtype: \<open>8 word\<close> for
  \<^verbatim>\<open>uint8\<close>, \<open>real\<close> for \<^verbatim>\<open>float32\<close> (rounding is not modelled: the quotient of
  line 33 is the exact one).
\<close>

record 'a tensor =
  shape :: "nat list"
  elem :: "nat list \<Rightarrow> 'a"

definition valid_index :: "nat list \<Rightarrow> nat list \<Rightarrow> bool" where
  "valid_index sh idx = list_all2 (\<lambda>i d. i < d) idx sh"

subsection \<open>\<^verbatim>\<open>tf.pad(tensor, paddings)\<close>, mode CONSTANT, constant 0\<close>

definition inside :: "(nat \<times> nat) list \<Rightarrow> nat list \<Rightarrow> nat list \<Rightarrow> bool" where
  "inside paddings sh idx =
     list_all (\<lambda>(i, d, before, after). before \<le> i \<and> i < before + d) (zip idx (zip sh paddings))"

definition tf_pad :: "('a::zero) tensor \<Rightarrow> (nat \<times> nat) list \<Rightarrow> error + 'a tensor" where
  "tf_pad t paddings =
     (if length paddings \<noteq> length (shape t) then Inl InvalidArgumentError
      else Inr \<lparr>shape = map2 (\<lambda>d (before, after). before + d + after) (shape t) paddings,
                elem = (\<lambda>idx. if inside paddings (shape t) idx
                               then elem t (map2 (\<lambda>i (before, after). i - before) idx paddings)
                               else 0)\<rparr>)"

subsection \<open>\<^verbatim>\<open>tensor / 255\<close> on a \<^verbatim>\<open>uint8\<close> tensor\<close>

text \<open>
  \<^verbatim>\<open>Tensor.__truediv__\<close> converts the Python integer to the dtype of the tensor
  (\<^verbatim>\<open>uint8\<close>), casts both operands to \<^verbatim>\<open>float32\<close> and divides elementwise.
\<close>

definition truediv :: "8 word tensor \<Rightarrow> 8 word \<Rightarrow> real tensor" where
  "truediv t c = \<lparr>shape = shape t, elem = (\<lambda>idx. real (unat (elem t idx)) / real (unat c))\<rparr>"

subsection \<open>\<^verbatim>\<open>tf.expand_dims(input, axis)\<close> and \<^verbatim>\<open>tf.repeat(input, repeats, axis)\<close>\<close>

definition tf_expand_dims :: "'a tensor \<Rightarrow> nat \<Rightarrow> error + 'a tensor" where
  "tf_expand_dims t axis =
     (if length (shape t) < axis then Inl InvalidArgumentError
      else Inr \<lparr>shape = take axis (shape t) @ [1] @ drop axis (shape t),
                elem = (\<lambda>idx. elem t (take axis idx @ drop (Suc axis) idx))\<rparr>)"

definition tf_repeat :: "'a tensor \<Rightarrow> nat \<Rightarrow> nat \<Rightarrow> error + 'a tensor" where
  "tf_repeat t repeats axis =
     (if length (shape t) \<le> axis then Inl InvalidArgumentError
      else Inr \<lparr>shape = (shape t)[axis := repeats * (shape t ! axis)],
                elem = (\<lambda>idx. elem t (idx[axis := (idx ! axis) div repeats]))\<rparr>)"

subsection \<open>Indexing with slices: \<^verbatim>\<open>t[a:b, :, ...]\<close>\<close>

datatype pyslice = Slice "int option" "int option"

text \<open>A slice bound on an axis of length \<open>n\<close>: a negative bound counts from the end, and
  every bound is clamped to \<open>0..n\<close>.\<close>

definition clamp_index :: "int \<Rightarrow> nat \<Rightarrow> nat" where
  "clamp_index k n =
     (if k < 0 then (if int n + k < 0 then 0 else nat (int n + k))
      else (if int n < k then n else nat k))"

fun slice_bounds :: "pyslice \<Rightarrow> nat \<Rightarrow> nat \<times> nat" where
  "slice_bounds (Slice start stop) n =
     ((case start of None \<Rightarrow> 0 | Some k \<Rightarrow> clamp_index k n),
      (case stop of None \<Rightarrow> n | Some k \<Rightarrow> clamp_index k n))"

definition slice_range :: "pyslice \<Rightarrow> nat \<Rightarrow> nat set" where
  "slice_range sl n = (case slice_bounds sl n of (lo, hi) \<Rightarrow> {lo..<hi})"

definition getitem :: "'a tensor \<Rightarrow> pyslice list \<Rightarrow> error + 'a tensor" where
  "getitem t sls =
     (if length (shape t) < length sls then Inl IndexError
      else let bs = map2 slice_bounds sls (shape t)
                    @ map (\<lambda>d. (0, d)) (drop (length sls) (shape t))
           in Inr \<lparr>shape = map (\<lambda>(lo, hi). hi - lo) bs,
                   elem = (\<lambda>idx. elem t (map2 (\<lambda>i (lo, hi). i + lo) idx bs))\<rparr>)"

subsection \<open>Comparing and joining tensors\<close>

text \<open>Two tensors are the same when they have one shape and agree at every index within
  it. \<open>concat0 a b\<close> is \<^verbatim>\<open>tf.concat([a, b], axis=0)\<close> for two tensors that agree in every
  other dimension. The script calls neither: they state what the split leaves.\<close>

definition same_tensor :: "'a tensor \<Rightarrow> 'a tensor \<Rightarrow> bool" where
  "same_tensor a b =
     (shape a = shape b \<and> (\<forall>idx. valid_index (shape a) idx \<longrightarrow> elem a idx = elem b idx))"

definition concat0 :: "'a tensor \<Rightarrow> 'a tensor \<Rightarrow> 'a tensor" where
  "concat0 a b =
     \<lparr>shape = (case (shape a, shape b) of
                 (na # rest, nb # rest') \<Rightarrow> (na + nb) # rest
               | other \<Rightarrow> []),
      elem = (\<lambda>idx. case (shape a, idx) of
                 (na # rest, i # js) \<Rightarrow> if i < na then elem a (i # js) else elem b ((i - na) # js)
               | other \<Rightarrow> elem a idx)\<rparr>"

section \<open>Loading and preprocessing (lines 31 to 45)\<close>

text \<open>The four arrays of \<^verbatim>\<open>datasets.mnist.load_data()\<close>, and the variables of the same
  names as the script rebinds them.\<close>

record 'a data =
  x_train :: "'a tensor"
  y_train :: "8 word tensor"
  x_test :: "'a tensor"
  y_test :: "8 word tensor"

record 'a split_data = "'a data" +
  x_val :: "'a tensor"
  y_val :: "8 word tensor"

text \<open>Lines 33 and 34.\<close>

definition pad_scale :: "8 word data \<Rightarrow> error + real data" where
  "pad_scale d =
     and_then (tf_pad (x_train d) [(0, 0), (2, 2), (2, 2)]) (\<lambda>p.
     let x_train' = truediv p 255 in
     and_then (tf_pad (x_test d) [(0, 0), (2, 2), (2, 2)]) (\<lambda>q.
     let x_test' = truediv q 255 in
     Inr \<lparr>x_train = x_train', y_train = y_train d, x_test = x_test', y_test = y_test d\<rparr>))"

text \<open>Lines 36 and 37.\<close>

definition expand :: "real data \<Rightarrow> error + real data" where
  "expand d =
     and_then (tf_expand_dims (x_train d) 3) (\<lambda>x_train'.
     and_then (tf_expand_dims (x_test d) 3) (\<lambda>x_test'.
     Inr (d\<lparr>x_train := x_train', x_test := x_test'\<rparr>)))"

text \<open>Lines 39 and 40.\<close>

definition replicate_channels :: "real data \<Rightarrow> error + real data" where
  "replicate_channels d =
     and_then (tf_repeat (x_train d) 3 3) (\<lambda>x_train'.
     and_then (tf_repeat (x_test d) 3 3) (\<lambda>x_test'.
     Inr (d\<lparr>x_train := x_train', x_test := x_test'\<rparr>)))"

text \<open>Lines 42 to 45.\<close>

definition validation_split :: "real data \<Rightarrow> error + real split_data" where
  "validation_split d =
     and_then (getitem (x_train d)
                 [Slice (Some (- 2000)) None, Slice None None, Slice None None, Slice None None]) (\<lambda>x_val'.
     and_then (getitem (y_train d) [Slice (Some (- 2000)) None]) (\<lambda>y_val'.
     and_then (getitem (x_train d)
                 [Slice None (Some (- 2000)), Slice None None, Slice None None, Slice None None]) (\<lambda>x_train'.
     and_then (getitem (y_train d) [Slice None (Some (- 2000))]) (\<lambda>y_train'.
     Inr \<lparr>x_train = x_train', y_train = y_train', x_test = x_test d, y_test = y_test d,
          x_val = x_val', y_val = y_val'\<rparr>))))"

definition preprocess :: "8 word data \<Rightarrow> error + real split_data" where
  "preprocess d =
     and_then (pad_scale d) (\<lambda>d1.
     and_then (expand d1) (\<lambda>d2.
     and_then (replicate_channels d2) validation_split))"

text \<open>What \<^verbatim>\<open>load_data\<close> returns: \<open>n\<close> training and \<open>m\<close> test images of 28 by 28 pixels,
  each with one label.\<close>

definition mnist_shaped :: "nat \<Rightarrow> nat \<Rightarrow> 8 word data \<Rightarrow> bool" where
  "mnist_shaped n m d =
     (shape (x_train d) = [n, 28, 28] \<and> shape (y_train d) = [n] \<and>
      shape (x_test d) = [m, 28, 28] \<and> shape (y_test d) = [m])"

section \<open>The model (lines 67 to 96)\<close>

text \<open>A layer object is its constructor and the arguments the script passes; a
  \<^verbatim>\<open>Sequential\<close> model is the list of its layers, and \<^verbatim>\<open>model.add\<close> appends.\<close>

datatype layer =
    Resizing nat nat string "nat list"
  | Conv2D nat nat nat string
  | Lambda string
  | Activation string
  | MaxPooling2D nat nat
  | Flatten
  | Dense nat string
  | Dropout real

definition Sequential :: "layer list" where
  "Sequential = []"

definition add :: "layer list \<Rightarrow> layer \<Rightarrow> layer list" where
  "add model l = model @ [l]"

text \<open>\<open>Resizing h w interpolation input_shape\<close>, \<open>Conv2D filters kernel_size strides padding\<close>,
  \<open>MaxPooling2D pool_size strides\<close>, \<open>Dense units activation\<close>, \<open>Dropout rate\<close>. The argument
  is \<^verbatim>\<open>x_train.shape\<close> as it is on line 68.\<close>

definition build_model :: "nat list \<Rightarrow> layer list" where
  "build_model x_train_shape =
     (let model = Sequential;
          model = add model (Resizing 224 224 ''bilinear'' (drop 1 x_train_shape));
          model = add model (Conv2D 96 11 4 ''same'');
          model = add model (Lambda ''tf.nn.local_response_normalization'');
          model = add model (Activation ''relu'');
          model = add model (MaxPooling2D 3 2);
          model = add model (Conv2D 256 5 4 ''same'');
          model = add model (Lambda ''tf.nn.local_response_normalization'');
          model = add model (Activation ''relu'');
          model = add model (MaxPooling2D 3 2);
          model = add model (Conv2D 384 3 4 ''same'');
          model = add model (Activation ''relu'');
          model = add model (Conv2D 384 3 4 ''same'');
          model = add model (Activation ''relu'');
          model = add model (Conv2D 256 3 4 ''same'');
          model = add model (Activation ''relu'');
          model = add model Flatten;
          model = add model (Dense 4096 ''relu'');
          model = add model (Dropout (1 / 2));
          model = add model (Dense 4096 ''relu'');
          model = add model (Dropout (1 / 2));
          model = add model (Dense 10 ''softmax'')
      in model)"

text \<open>Reading the stack: the filters of the convolutions in order, the units of the dense
  layers in order, and the layer that follows each layer.\<close>

fun conv_filters :: "layer list \<Rightarrow> nat list" where
  "conv_filters [] = []"
| "conv_filters (Conv2D f k s p # ls) = f # conv_filters ls"
| "conv_filters (l # ls) = conv_filters ls"

fun dense_units :: "layer list \<Rightarrow> nat list" where
  "dense_units [] = []"
| "dense_units (Dense u a # ls) = u # dense_units ls"
| "dense_units (l # ls) = dense_units ls"

fun successors :: "layer list \<Rightarrow> (layer \<times> layer) list" where
  "successors (a # b # ls) = (a, b) # successors (b # ls)"
| "successors ls = []"

text \<open>The class of a layer.\<close>

fun kind :: "layer \<Rightarrow> string" where
  "kind (Resizing h w i s) = ''Resizing''"
| "kind (Conv2D f k s p) = ''Conv2D''"
| "kind (Lambda f) = ''Lambda''"
| "kind (Activation a) = ''Activation''"
| "kind (MaxPooling2D p s) = ''MaxPooling2D''"
| "kind Flatten = ''Flatten''"
| "kind (Dense u a) = ''Dense''"
| "kind (Dropout r) = ''Dropout''"

section \<open>Compiling and training (lines 100 to 106)\<close>

record compile_args =
  optimizer :: string
  loss :: string
  metrics :: "string list"

record fit_args =
  fit_x :: "real tensor"
  fit_y :: "8 word tensor"
  batch_size :: nat
  epochs :: nat
  validation_data :: "(real tensor \<times> 8 word tensor) option"
  callbacks :: "(nat \<Rightarrow> (string \<times> real) list \<Rightarrow> bool) list"

text \<open>
  The framework is not part of the repository. What the script needs of it is a
  parameter: the arrays \<^verbatim>\<open>load_data\<close> returns, and for a model with weights \<open>'m\<close> what
  \<^verbatim>\<open>summary\<close>, \<^verbatim>\<open>compile\<close>, one epoch of training (the new weights and the value of each
  logged quantity) and \<^verbatim>\<open>evaluate\<close> return. Each of them may raise.
\<close>

record 'm framework =
  mnist_load_data :: "error + 8 word data"
  model_summary :: "layer list \<Rightarrow> error + unit"
  model_compile :: "layer list \<Rightarrow> compile_args \<Rightarrow> error + 'm"
  model_train_epoch :: "'m \<Rightarrow> fit_args \<Rightarrow> nat \<Rightarrow> error + 'm \<times> (string \<Rightarrow> real)"
  model_evaluate :: "'m \<Rightarrow> real tensor \<Rightarrow> 8 word tensor \<Rightarrow> error + real list"

text \<open>The object \<^verbatim>\<open>fit\<close> returns: the epochs run and, for each logged name, its values.\<close>

record History =
  epoch :: "nat list"
  history :: "string \<rightharpoonup> real list"

text \<open>The values logged under a name, none when the name was never logged.\<close>

definition logged :: "History \<Rightarrow> string \<Rightarrow> real list" where
  "logged h k = (case history h k of None \<Rightarrow> [] | Some vs \<Rightarrow> vs)"

text \<open>
  Modelled from the spec: the pre-built trainer behind \<^verbatim>\<open>model.fit\<close> (the fixed-epoch
  training loop of the framework), which is not in the repository. An epoch logs the
  loss and each compiled metric, and the same under the prefix \<^verbatim>\<open>val_\<close> when validation
  data is given; the history appends each logged value to the list under its name; the
  loop runs \<open>epochs\<close> epochs from epoch 0 and leaves early only when a callback asks for it.
\<close>

definition log_names :: "compile_args \<Rightarrow> fit_args \<Rightarrow> string list" where
  "log_names cargs a =
     (''loss'' # metrics cargs)
     @ (case validation_data a of
          None \<Rightarrow> []
        | Some v \<Rightarrow> map (\<lambda>k. ''val_'' @ k) (''loss'' # metrics cargs))"

definition on_epoch_end :: "nat \<Rightarrow> (string \<times> real) list \<Rightarrow> History \<Rightarrow> History" where
  "on_epoch_end e logs h =
     \<lparr>epoch = epoch h @ [e],
      history = fold (\<lambda>(k, v) hm. hm(k \<mapsto> (case hm k of None \<Rightarrow> [] | Some vs \<Rightarrow> vs) @ [v]))
                  logs (history h)\<rparr>"

fun fit_loop ::
  "'m framework \<Rightarrow> compile_args \<Rightarrow> fit_args \<Rightarrow> nat \<Rightarrow> nat \<Rightarrow> 'm \<Rightarrow> History \<Rightarrow> error + 'm \<times> History"
where
  "fit_loop fw cargs a e 0 m h = Inr (m, h)"
| "fit_loop fw cargs a e (Suc remaining) m h =
     and_then (model_train_epoch fw m a e) (\<lambda>(m', value_of).
     let logs = map (\<lambda>k. (k, value_of k)) (log_names cargs a);
         h' = on_epoch_end e logs h
     in if list_ex (\<lambda>stop. stop e logs) (callbacks a) then Inr (m', h')
        else fit_loop fw cargs a (Suc e) remaining m' h')"

definition fit :: "'m framework \<Rightarrow> compile_args \<Rightarrow> 'm \<Rightarrow> fit_args \<Rightarrow> error + 'm \<times> History" where
  "fit fw cargs m a = fit_loop fw cargs a 0 (epochs a) m \<lparr>epoch = [], history = Map.empty\<rparr>"

text \<open>The arguments of lines 104 and 106.\<close>

definition compile_call :: compile_args where
  "compile_call =
     \<lparr>optimizer = ''adam'', loss = ''sparse_categorical_crossentropy'', metrics = [''accuracy'']\<rparr>"

definition fit_call :: "real split_data \<Rightarrow> fit_args" where
  "fit_call d =
     \<lparr>fit_x = x_train d, fit_y = y_train d, batch_size = 64, epochs = 40,
      validation_data = Some (x_val d, y_val d), callbacks = []\<rparr>"

section \<open>Plotting (lines 110 to 122)\<close>

record axes =
  lines :: "real list list"
  title :: string
  xlabel :: string
  ylabel :: string
  legend :: "string list"

record figure =
  figsize :: "nat \<times> nat"

text \<open>\<^verbatim>\<open>plt.subplots(nrows, 1, figsize=...)\<close> returns the new figure and the array of its
  \<open>nrows\<close> new axes.\<close>

definition subplots :: "nat \<Rightarrow> nat \<Rightarrow> nat \<times> nat \<Rightarrow> figure \<times> axes list" where
  "subplots nrows ncols inches =
     (\<lparr>figsize = inches\<rparr>,
      replicate (nrows * ncols) \<lparr>lines = [], title = [], xlabel = [], ylabel = [], legend = []\<rparr>)"

definition plot :: "real list \<Rightarrow> axes \<Rightarrow> axes" where
  "plot ys ax = ax\<lparr>lines := lines ax @ [ys]\<rparr>"

definition set_text :: "string \<Rightarrow> axes \<Rightarrow> axes" where
  "set_text s ax = ax\<lparr>title := s\<rparr>"

definition set_xlabel :: "string \<Rightarrow> axes \<Rightarrow> axes" where
  "set_xlabel s ax = ax\<lparr>xlabel := s\<rparr>"

definition set_ylabel :: "string \<Rightarrow> axes \<Rightarrow> axes" where
  "set_ylabel s ax = ax\<lparr>ylabel := s\<rparr>"

definition set_legend :: "string list \<Rightarrow> axes \<Rightarrow> axes" where
  "set_legend ls ax = ax\<lparr>legend := ls\<rparr>"

text \<open>\<^verbatim>\<open>history.history[k]\<close> raises \<^verbatim>\<open>KeyError\<close> on a missing key.\<close>

definition history_item :: "History \<Rightarrow> string \<Rightarrow> error + real list" where
  "history_item h k = (case history h k of None \<Rightarrow> Inl (KeyError k) | Some vs \<Rightarrow> Inr vs)"

text \<open>\<^verbatim>\<open>axs[k].method(arg)\<close>: the subscript is evaluated (\<^verbatim>\<open>IndexError\<close> out of range), then
  the argument, then the method updates the axes in place.\<close>

definition axs_call ::
  "axes list \<Rightarrow> nat \<Rightarrow> ('v \<Rightarrow> axes \<Rightarrow> axes) \<Rightarrow> error + 'v \<Rightarrow> error + axes list" where
  "axs_call axs k method arg =
     (if length axs \<le> k then Inl IndexError
      else and_then arg (\<lambda>v. Inr (axs[k := method v (axs ! k)])))"

definition plot_history :: "History \<Rightarrow> error + figure \<times> axes list" where
  "plot_history h =
     (let (fig, axs) = subplots 2 1 (15, 15) in
      and_then (axs_call axs 0 plot (history_item h ''loss'')) (\<lambda>axs.
      and_then (axs_call axs 0 plot (history_item h ''val_loss'')) (\<lambda>axs.
      and_then (axs_call axs 0 set_text (Inr ''Training Loss vs Validation Loss'')) (\<lambda>axs.
      and_then (axs_call axs 0 set_xlabel (Inr ''Epochs'')) (\<lambda>axs.
      and_then (axs_call axs 0 set_ylabel (Inr ''Loss'')) (\<lambda>axs.
      and_then (axs_call axs 0 set_legend (Inr [''Train'', ''Val''])) (\<lambda>axs.
      and_then (axs_call axs 1 plot (history_item h ''accuracy'')) (\<lambda>axs.
      and_then (axs_call axs 1 plot (history_item h ''val_accuracy'')) (\<lambda>axs.
      and_then (axs_call axs 1 set_text (Inr ''Training Accuracy vs Validation Accuracy'')) (\<lambda>axs.
      and_then (axs_call axs 1 set_xlabel (Inr ''Epochs'')) (\<lambda>axs.
      and_then (axs_call axs 1 set_ylabel (Inr ''Accuracy'')) (\<lambda>axs.
      and_then (axs_call axs 1 set_legend (Inr [''Train'', ''Val''])) (\<lambda>axs.
      Inr (fig, axs))))))))))))))"

section \<open>The script\<close>

text \<open>The variables the script leaves when it ends.\<close>

record 'm outcome =
  prepared :: "real split_data"
  model :: "layer list"
  weights :: 'm
  fit_history :: History
  fig :: figure
  axs :: "axes list"

definition script :: "'m framework \<Rightarrow> error + 'm outcome" where
  "script fw =
     and_then (mnist_load_data fw) (\<lambda>d.
     and_then (preprocess d) (\<lambda>d.
     let model = build_model (shape (x_train d)) in
     and_then (model_summary fw model) (\<lambda>u.
     and_then (model_compile fw model compile_call) (\<lambda>m.
     and_then (fit fw compile_call m (fit_call d)) (\<lambda>(m, h).
     and_then (plot_history h) (\<lambda>(fig, axs).
     Inr \<lparr>prepared = d, model = model, weights = m, fit_history = h,
          fig = fig, axs = axs\<rparr>))))))"

section \<open>A run on arrays of the size of the dataset\<close>

text \<open>60000 training and 10000 test images whose pixels and labels vary with the index,
  and a framework that never raises and logs \<open>1 / (e + 1)\<close> in epoch \<open>e\<close>.\<close>

definition demo_data :: "8 word data" where
  "demo_data =
     \<lparr>x_train = \<lparr>shape = [60000, 28, 28], elem = (\<lambda>idx. of_nat (sum_list idx))\<rparr>,
      y_train = \<lparr>shape = [60000], elem = (\<lambda>idx. of_nat (sum_list idx mod 10))\<rparr>,
      x_test = \<lparr>shape = [10000, 28, 28], elem = (\<lambda>idx. of_nat (2 * sum_list idx))\<rparr>,
      y_test = \<lparr>shape = [10000], elem = (\<lambda>idx. of_nat (sum_list idx mod 10))\<rparr>\<rparr>"

definition demo_framework :: "nat framework" where
  "demo_framework =
     \<lparr>mnist_load_data = Inr demo_data,
      model_summary = (\<lambda>ls. Inr ()),
      model_compile = (\<lambda>ls cargs. Inr 0),
      model_train_epoch = (\<lambda>m a e. Inr (Suc m, \<lambda>k. 1 / real (Suc e))),
      model_evaluate = (\<lambda>m x y. Inr [])\<rparr>"


text \<open>Other test arrays of the same shapes, to run the script on.\<close>

definition other_test_images :: "8 word tensor" where
  "other_test_images = \<lparr>shape = [10000, 28, 28], elem = (\<lambda>idx. 255)\<rparr>"

definition other_test_labels :: "8 word tensor" where
  "other_test_labels = \<lparr>shape = [10000], elem = (\<lambda>idx. 0)\<rparr>"

section \<open>Sequencing and list facts\<close>

lemma and_then_Inr [simp]: "and_then (Inr x) f = f x"
  by (simp add: and_then_def)

lemma and_then_Inl [simp]: "and_then (Inl e) f = Inl e"
  by (simp add: and_then_def)

lemma update3: "[a, b, c, d][3 := x] = [a, b, c, x]"
  by (simp add: numeral_3_eq_3)

lemma nth3: "[a, b, c, d] ! 3 = d"
  by (simp add: numeral_3_eq_3)

lemma clamp_index_back: "clamp_index (- 2000) n = n - 2000"
  unfolding clamp_index_def by (simp add: nat_diff_distrib')

lemma tf_pad_images:
  assumes "shape t = [n, 28, 28]"
  shows "tf_pad t [(0, 0), (2, 2), (2, 2)] = Inr (projr (tf_pad t [(0, 0), (2, 2), (2, 2)]))"
    and "shape (projr (tf_pad t [(0, 0), (2, 2), (2, 2)])) = [n, 32, 32]"
    and "elem (projr (tf_pad t [(0, 0), (2, 2), (2, 2)])) [i, r, c] =
              (if i < n \<and> 2 \<le> r \<and> r < 30 \<and> 2 \<le> c \<and> c < 30 then elem t [i, r - 2, c - 2] else 0)"
  using assms by (simp_all add: tf_pad_def inside_def)

lemma pad_scale_ok:
  assumes "mnist_shaped n m d"
  shows "pad_scale d = Inr (projr (pad_scale d))"
    and "x_train (projr (pad_scale d)) = truediv (projr (tf_pad (x_train d) [(0, 0), (2, 2), (2, 2)])) 255"
    and "x_test (projr (pad_scale d)) = truediv (projr (tf_pad (x_test d) [(0, 0), (2, 2), (2, 2)])) 255"
    and "y_train (projr (pad_scale d)) = y_train d"
    and "y_test (projr (pad_scale d)) = y_test d"
proof -
  from assms have s: "shape (x_train d) = [n, 28, 28]" "shape (x_test d) = [m, 28, 28]"
    by (simp_all add: mnist_shaped_def)
  have r: "pad_scale d = Inr \<lparr>x_train = truediv (projr (tf_pad (x_train d) [(0, 0), (2, 2), (2, 2)])) 255,
      y_train = y_train d,
      x_test = truediv (projr (tf_pad (x_test d) [(0, 0), (2, 2), (2, 2)])) 255, y_test = y_test d\<rparr>"
    unfolding pad_scale_def
    by (subst tf_pad_images(1) [OF s(1)], subst tf_pad_images(1) [OF s(2)]) (simp add: Let_def)
  show "pad_scale d = Inr (projr (pad_scale d))"
    and "x_train (projr (pad_scale d)) = truediv (projr (tf_pad (x_train d) [(0, 0), (2, 2), (2, 2)])) 255"
    and "x_test (projr (pad_scale d)) = truediv (projr (tf_pad (x_test d) [(0, 0), (2, 2), (2, 2)])) 255"
    and "y_train (projr (pad_scale d)) = y_train d"
    and "y_test (projr (pad_scale d)) = y_test d"
    by (simp_all add: r)
qed

lemma pad_scale_elems:
  assumes "mnist_shaped n m d"
  shows "shape (x_train (projr (pad_scale d))) = [n, 32, 32]"
    and "shape (x_test (projr (pad_scale d))) = [m, 32, 32]"
    and "elem (x_train (projr (pad_scale d))) [i, r, c] =
           (if i < n \<and> 2 \<le> r \<and> r < 30 \<and> 2 \<le> c \<and> c < 30
            then real (unat (elem (x_train d) [i, r - 2, c - 2])) / 255 else 0)"
    and "elem (x_test (projr (pad_scale d))) [i, r, c] =
           (if i < m \<and> 2 \<le> r \<and> r < 30 \<and> 2 \<le> c \<and> c < 30
            then real (unat (elem (x_test d) [i, r - 2, c - 2])) / 255 else 0)"
proof -
  from assms have s: "shape (x_train d) = [n, 28, 28]" "shape (x_test d) = [m, 28, 28]"
    by (simp_all add: mnist_shaped_def)
  show "shape (x_train (projr (pad_scale d))) = [n, 32, 32]"
    by (simp add: pad_scale_ok(2) [OF assms] truediv_def tf_pad_images(2) [OF s(1)])
  show "shape (x_test (projr (pad_scale d))) = [m, 32, 32]"
    by (simp add: pad_scale_ok(3) [OF assms] truediv_def tf_pad_images(2) [OF s(2)])
  show "elem (x_train (projr (pad_scale d))) [i, r, c] =
           (if i < n \<and> 2 \<le> r \<and> r < 30 \<and> 2 \<le> c \<and> c < 30
            then real (unat (elem (x_train d) [i, r - 2, c - 2])) / 255 else 0)"
    by (simp add: pad_scale_ok(2) [OF assms] truediv_def tf_pad_images(3) [OF s(1)])
  show "elem (x_test (projr (pad_scale d))) [i, r, c] =
           (if i < m \<and> 2 \<le> r \<and> r < 30 \<and> 2 \<le> c \<and> c < 30
            then real (unat (elem (x_test d) [i, r - 2, c - 2])) / 255 else 0)"
    by (simp add: pad_scale_ok(3) [OF assms] truediv_def tf_pad_images(3) [OF s(2)])
qed

lemma expand_ok:
  assumes "shape (x_train d) = [n, h, w]" "shape (x_test d) = [m, h, w]"
  shows "expand d = Inr (projr (expand d))"
    and "shape (x_train (projr (expand d))) = [n, h, w, 1]"
    and "shape (x_test (projr (expand d))) = [m, h, w, 1]"
    and "y_train (projr (expand d)) = y_train d"
    and "y_test (projr (expand d)) = y_test d"
    and "elem (x_train (projr (expand d))) [i, r, c, k] = elem (x_train d) [i, r, c]"
    and "elem (x_test (projr (expand d))) [i, r, c, k] = elem (x_test d) [i, r, c]"
  using assms by (simp_all add: expand_def tf_expand_dims_def)

lemma replicate_channels_ok:
  assumes "shape (x_train d) = [n, h, w, 1]" "shape (x_test d) = [m, h, w, 1]"
  shows "replicate_channels d = Inr (projr (replicate_channels d))"
    and "shape (x_train (projr (replicate_channels d))) = [n, h, w, 3]"
    and "shape (x_test (projr (replicate_channels d))) = [m, h, w, 3]"
    and "y_train (projr (replicate_channels d)) = y_train d"
    and "y_test (projr (replicate_channels d)) = y_test d"
    and "elem (x_train (projr (replicate_channels d))) [i, r, c, k] = elem (x_train d) [i, r, c, k div 3]"
    and "elem (x_test (projr (replicate_channels d))) [i, r, c, k] = elem (x_test d) [i, r, c, k div 3]"
  using assms by (simp_all add: replicate_channels_def tf_repeat_def update3 nth3)

lemma validation_split_ok:
  assumes "shape (x_train d) = [n, h, w, ch]" "shape (y_train d) = [n]"
  shows "validation_split d = Inr (projr (validation_split d))"
    and "shape (x_train (projr (validation_split d))) = [n - 2000, h, w, ch]"
    and "shape (y_train (projr (validation_split d))) = [n - 2000]"
    and "shape (x_val (projr (validation_split d))) = [n - (n - 2000), h, w, ch]"
    and "shape (y_val (projr (validation_split d))) = [n - (n - 2000)]"
    and "x_test (projr (validation_split d)) = x_test d"
    and "y_test (projr (validation_split d)) = y_test d"
    and "elem (x_train (projr (validation_split d))) [i, r, c, k] = elem (x_train d) [i, r, c, k]"
    and "elem (y_train (projr (validation_split d))) [i] = elem (y_train d) [i]"
    and "elem (x_val (projr (validation_split d))) [i, r, c, k] = elem (x_train d) [i + (n - 2000), r, c, k]"
    and "elem (y_val (projr (validation_split d))) [i] = elem (y_train d) [i + (n - 2000)]"
  using assms by (simp_all add: validation_split_def getitem_def clamp_index_back)


lemma preprocess_stages:
  assumes "mnist_shaped n m d"
  defines "d1 \<equiv> projr (pad_scale d)"
  defines "d2 \<equiv> projr (expand d1)"
  defines "d3 \<equiv> projr (replicate_channels d2)"
  defines "s \<equiv> projr (validation_split d3)"
  shows "pad_scale d = Inr d1" and "expand d1 = Inr d2" and "replicate_channels d2 = Inr d3"
    and "validation_split d3 = Inr s" and "preprocess d = Inr s"
    and "shape (x_train d1) = [n, 32, 32]" and "shape (x_test d1) = [m, 32, 32]"
    and "shape (x_train d2) = [n, 32, 32, 1]" and "shape (x_test d2) = [m, 32, 32, 1]"
    and "shape (x_train d3) = [n, 32, 32, 3]" and "shape (x_test d3) = [m, 32, 32, 3]"
    and "y_train d1 = y_train d" and "y_test d1 = y_test d"
    and "y_train d2 = y_train d" and "y_test d2 = y_test d"
    and "y_train d3 = y_train d" and "y_test d3 = y_test d"
    and "shape (y_train d3) = [n]"
proof -
  show a: "pad_scale d = Inr d1"
    unfolding d1_def by (rule pad_scale_ok(1) [OF assms(1)])
  show s1: "shape (x_train d1) = [n, 32, 32]" "shape (x_test d1) = [m, 32, 32]"
    unfolding d1_def by (rule pad_scale_elems(1,2) [OF assms(1)])+
  show y1: "y_train d1 = y_train d" "y_test d1 = y_test d"
    unfolding d1_def by (rule pad_scale_ok(4,5) [OF assms(1)])+
  show b: "expand d1 = Inr d2"
    unfolding d2_def by (rule expand_ok(1) [OF s1])
  show s2: "shape (x_train d2) = [n, 32, 32, 1]" "shape (x_test d2) = [m, 32, 32, 1]"
    unfolding d2_def by (rule expand_ok(2,3) [OF s1])+
  show y2: "y_train d2 = y_train d" "y_test d2 = y_test d"
    unfolding d2_def by (simp_all add: expand_ok(4,5) [OF s1] y1)
  show c: "replicate_channels d2 = Inr d3"
    unfolding d3_def by (rule replicate_channels_ok(1) [OF s2])
  show s3: "shape (x_train d3) = [n, 32, 32, 3]" "shape (x_test d3) = [m, 32, 32, 3]"
    unfolding d3_def by (rule replicate_channels_ok(2,3) [OF s2])+
  show y3: "y_train d3 = y_train d" "y_test d3 = y_test d"
    unfolding d3_def by (simp_all add: replicate_channels_ok(4,5) [OF s2] y2)
  show ys: "shape (y_train d3) = [n]"
    using assms(1) by (simp add: y3 mnist_shaped_def)
  show e: "validation_split d3 = Inr s"
    unfolding s_def by (rule validation_split_ok(1) [OF s3(1) ys])
  show "preprocess d = Inr s"
    by (simp add: preprocess_def a b c e)
qed

lemma preprocess_elems:
  assumes "mnist_shaped n m d"
  defines "d1 \<equiv> projr (pad_scale d)"
  defines "s \<equiv> projr (preprocess d)"
  shows "preprocess d = Inr s"
    and "shape (x_train s) = [n - 2000, 32, 32, 3]" and "shape (y_train s) = [n - 2000]"
    and "shape (x_val s) = [n - (n - 2000), 32, 32, 3]" and "shape (y_val s) = [n - (n - 2000)]"
    and "shape (x_test s) = [m, 32, 32, 3]" and "y_test s = y_test d"
    and "elem (x_train s) [i, r, c, k] = elem (x_train d1) [i, r, c]"
    and "elem (x_val s) [i, r, c, k] = elem (x_train d1) [i + (n - 2000), r, c]"
    and "elem (x_test s) [i, r, c, k] = elem (x_test d1) [i, r, c]"
    and "elem (y_train s) [i] = elem (y_train d) [i]"
    and "elem (y_val s) [i] = elem (y_train d) [i + (n - 2000)]"
proof -
  define d2 where "d2 = projr (expand d1)"
  define d3 where "d3 = projr (replicate_channels d2)"
  note st = preprocess_stages [OF assms(1), folded d1_def d2_def d3_def]
  have s: "s = projr (validation_split d3)"
    by (simp add: s_def st(5))
  note sp = validation_split_ok [OF st(10) st(18), folded s]
  note ex = expand_ok [OF st(6,7), folded d2_def]
  note rp = replicate_channels_ok [OF st(8,9), folded d3_def]
  show "preprocess d = Inr s"
    by (simp add: s st(5))
  show "shape (x_train s) = [n - 2000, 32, 32, 3]" and "shape (y_train s) = [n - 2000]"
    and "shape (x_val s) = [n - (n - 2000), 32, 32, 3]" and "shape (y_val s) = [n - (n - 2000)]"
    by (rule sp)+
  show "shape (x_test s) = [m, 32, 32, 3]"
    by (simp add: sp(6) st(11))
  show "y_test s = y_test d"
    by (simp add: sp(7) st(17))
  show "elem (x_train s) [i, r, c, k] = elem (x_train d1) [i, r, c]"
    by (simp add: sp(8) rp(6) ex(6))
  show "elem (x_val s) [i, r, c, k] = elem (x_train d1) [i + (n - 2000), r, c]"
    by (simp add: sp(10) rp(6) ex(6))
  show "elem (x_test s) [i, r, c, k] = elem (x_test d1) [i, r, c]"
    by (simp add: sp(6) rp(7) ex(7))
  show "elem (y_train s) [i] = elem (y_train d) [i]"
    by (simp add: sp(9) st(16))
  show "elem (y_val s) [i] = elem (y_train d) [i + (n - 2000)]"
    by (simp add: sp(11) st(16))
qed

lemma build_model_first:
  "hd (build_model sh) = Resizing 224 224 ''bilinear'' (drop 1 sh)"
  by (simp add: build_model_def Sequential_def add_def Let_def)

lemma valid_index4:
  "valid_index [a, b, c, d] idx \<longleftrightarrow> (\<exists>i r q k. idx = [i, r, q, k] \<and> i < a \<and> r < b \<and> q < c \<and> k < d)"
  by (auto simp: valid_index_def list_all2_Cons2)

lemma valid_index1:
  "valid_index [a] idx \<longleftrightarrow> (\<exists>i. idx = [i] \<and> i < a)"
  by (auto simp: valid_index_def list_all2_Cons2)

lemma slice_range_to: "slice_range (Slice None (Some (- 2000))) n = {0..<n - 2000}"
  by (simp add: slice_range_def clamp_index_back)

lemma slice_range_from: "slice_range (Slice (Some (- 2000)) None) n = {n - 2000..<n}"
  by (simp add: slice_range_def clamp_index_back)

section \<open>The trainer, the plots and the script\<close>

lemma log_names_script:
  "log_names compile_call (fit_call p) = [''loss'', ''accuracy'', ''val_loss'', ''val_accuracy'']"
  by (simp add: log_names_def compile_call_def fit_call_def)

lemma on_epoch_end_script:
  fixes v :: "string \<Rightarrow> real" and e :: nat and h :: History
  defines "h' \<equiv> on_epoch_end e [(''loss'', v ''loss''), (''accuracy'', v ''accuracy''),
      (''val_loss'', v ''val_loss''), (''val_accuracy'', v ''val_accuracy'')] h"
  shows "epoch h' = epoch h @ [e]"
    and "dom (history h') = dom (history h) \<union> {''loss'', ''accuracy'', ''val_loss'', ''val_accuracy''}"
    and "logged h' x = logged h x @ (if x \<in> {''loss'', ''accuracy'', ''val_loss'', ''val_accuracy''} then [v x] else [])"
  unfolding h'_def by (auto simp: on_epoch_end_def logged_def)

lemma fit_loop_returns:
  assumes "\<forall>w e. \<exists>r. model_train_epoch fw w a e = Inr r" and "callbacks a = []"
  shows "\<exists>r. fit_loop fw cargs a e k w h = Inr r"
proof (induction k arbitrary: e w h)
  case 0
  show ?case by simp
next
  case (Suc k)
  from assms(1) obtain w' v where "model_train_epoch fw w a e = Inr (w', v)"
    by (metis surj_pair)
  then show ?case
    using Suc.IH by (simp add: assms(2) Let_def)
qed

lemma fit_loop_history:
  assumes "fit_loop fw cargs a e k w h = Inr (w', h')" and "callbacks a = []"
    and "log_names cargs a = [''loss'', ''accuracy'', ''val_loss'', ''val_accuracy'']"
  shows "epoch h' = epoch h @ [e..<e + k]
     \<and> dom (history h') = dom (history h)
          \<union> (if k = 0 then {} else {''loss'', ''accuracy'', ''val_loss'', ''val_accuracy''})
     \<and> (\<forall>x. length (logged h' x) = length (logged h x)
          + (if x \<in> {''loss'', ''accuracy'', ''val_loss'', ''val_accuracy''} then k else 0))"
  using assms(1)
proof (induction k arbitrary: e w h)
  case 0
  then show ?case by simp
next
  case (Suc k)
  from Suc.prems obtain w1 v where t: "model_train_epoch fw w a e = Inr (w1, v)"
    by (cases "model_train_epoch fw w a e") auto
  let ?h1 = "on_epoch_end e [(''loss'', v ''loss''), (''accuracy'', v ''accuracy''),
      (''val_loss'', v ''val_loss''), (''val_accuracy'', v ''val_accuracy'')] h"
  from Suc.prems have r: "fit_loop fw cargs a (Suc e) k w1 ?h1 = Inr (w', h')"
    by (simp add: t assms(2,3) Let_def)
  note ih = Suc.IH [OF r]
  note oe = on_epoch_end_script [of e v h]
  have up: "[e..<e + Suc k] = e # [Suc e..<Suc e + k]"
    by (simp add: upt_conv_Cons)
  from ih have "epoch h' = epoch h @ [e..<e + Suc k]"
    by (simp only: oe(1) up append_assoc append_Cons append_Nil)
  moreover from ih have "dom (history h') = dom (history h)
          \<union> (if Suc k = 0 then {} else {''loss'', ''accuracy'', ''val_loss'', ''val_accuracy''})"
    by (auto simp: oe(2))
  moreover from ih have "length (logged h' x) = length (logged h x)
          + (if x \<in> {''loss'', ''accuracy'', ''val_loss'', ''val_accuracy''} then Suc k else 0)" for x
    by (simp add: oe(3))
  ultimately show ?case
    by blast
qed

lemma and_then_eq_Inr: "and_then m f = Inr y \<longleftrightarrow> (\<exists>x. m = Inr x \<and> f x = Inr y)"
  by (cases m) simp_all

lemma and_then_eq_Inl: "and_then m f = Inl e \<longleftrightarrow> m = Inl e \<or> (\<exists>x. m = Inr x \<and> f x = Inl e)"
  by (cases m) simp_all

lemma subplots_2_1:
  "subplots 2 1 sz = (\<lparr>figsize = sz\<rparr>,
                  [\<lparr>lines = [], title = [], xlabel = [], ylabel = [], legend = []\<rparr>,
                   \<lparr>lines = [], title = [], xlabel = [], ylabel = [], legend = []\<rparr>])"
  by (simp add: subplots_def numeral_2_eq_2)

lemma subplots_2_Suc:
  "subplots 2 (Suc 0) sz = (\<lparr>figsize = sz\<rparr>,
                  [\<lparr>lines = [], title = [], xlabel = [], ylabel = [], legend = []\<rparr>,
                   \<lparr>lines = [], title = [], xlabel = [], ylabel = [], legend = []\<rparr>])"
  by (simp add: subplots_def numeral_2_eq_2)

lemma plot_history_Inr:
  "plot_history h = Inr (fg, ax) \<longleftrightarrow>
     (\<exists>l vl a va. history h ''loss'' = Some l \<and> history h ''val_loss'' = Some vl
        \<and> history h ''accuracy'' = Some a \<and> history h ''val_accuracy'' = Some va
        \<and> fg = \<lparr>figsize = (15, 15)\<rparr>
        \<and> ax = [\<lparr>lines = [l, vl], title = ''Training Loss vs Validation Loss'',
                   xlabel = ''Epochs'', ylabel = ''Loss'', legend = [''Train'', ''Val'']\<rparr>,
                 \<lparr>lines = [a, va], title = ''Training Accuracy vs Validation Accuracy'',
                   xlabel = ''Epochs'', ylabel = ''Accuracy'', legend = [''Train'', ''Val'']\<rparr>])"
  by (auto simp: plot_history_def subplots_2_1 subplots_2_Suc Let_def axs_call_def history_item_def plot_def set_text_def
        set_xlabel_def set_ylabel_def set_legend_def split: option.splits)

lemma script_Inr:
  assumes "script fw = Inr out"
  shows "\<exists>d u w0. mnist_load_data fw = Inr d \<and> preprocess d = Inr (prepared out)
     \<and> model out = build_model (shape (x_train (prepared out)))
     \<and> model_summary fw (model out) = Inr u
     \<and> model_compile fw (model out) compile_call = Inr w0
     \<and> fit fw compile_call w0 (fit_call (prepared out)) = Inr (weights out, fit_history out)
     \<and> plot_history (fit_history out) = Inr (fig out, axs out)"
  using assms by (auto simp: script_def and_then_eq_Inr Let_def split: prod.splits)

lemma script_history:
  assumes "script fw = Inr out"
  shows "epoch (fit_history out) = [0..<40]"
    and "dom (history (fit_history out)) = {''loss'', ''accuracy'', ''val_loss'', ''val_accuracy''}"
    and "length (logged (fit_history out) x)
           = (if x \<in> {''loss'', ''accuracy'', ''val_loss'', ''val_accuracy''} then 40 else 0)"
proof -
  from script_Inr [OF assms] obtain w0 where
    "fit fw compile_call w0 (fit_call (prepared out)) = Inr (weights out, fit_history out)"
    by blast
  then have f: "fit_loop fw compile_call (fit_call (prepared out)) 0 40 w0
      \<lparr>epoch = [], history = Map.empty\<rparr> = Inr (weights out, fit_history out)"
    by (simp add: fit_def fit_call_def)
  have c: "callbacks (fit_call (prepared out)) = []"
    by (simp add: fit_call_def)
  note r = fit_loop_history [OF f c log_names_script]
  from r show "epoch (fit_history out) = [0..<40]"
    by simp
  from r show "dom (history (fit_history out)) = {''loss'', ''accuracy'', ''val_loss'', ''val_accuracy''}"
    by simp
  from r show "length (logged (fit_history out) x)
           = (if x \<in> {''loss'', ''accuracy'', ''val_loss'', ''val_accuracy''} then 40 else 0)"
    by (simp add: logged_def)
qed

lemma script_runs:
  assumes "mnist_load_data fw = Inr d" and "mnist_shaped n m d"
    and "\<forall>ls. \<exists>u. model_summary fw ls = Inr u"
    and "\<forall>ls c. \<exists>w. model_compile fw ls c = Inr w"
    and "\<forall>w a e. \<exists>r. model_train_epoch fw w a e = Inr r"
  shows "\<exists>out. script fw = Inr out"
proof -
  define p where "p = projr (preprocess d)"
  have pre: "preprocess d = Inr p"
    unfolding p_def by (rule preprocess_elems(1) [OF assms(2)])
  from assms(3) obtain u where u: "model_summary fw (build_model (shape (x_train p))) = Inr u"
    by blast
  from assms(4) obtain w0 where w0: "model_compile fw (build_model (shape (x_train p))) compile_call = Inr w0"
    by blast
  have c: "callbacks (fit_call p) = []"
    by (simp add: fit_call_def)
  from assms(5) have "\<forall>w e. \<exists>r. model_train_epoch fw w (fit_call p) e = Inr r"
    by blast
  from fit_loop_returns [OF this c] obtain w1 h where
    f: "fit_loop fw compile_call (fit_call p) 0 40 w0 \<lparr>epoch = [], history = Map.empty\<rparr> = Inr (w1, h)"
    by (metis surj_pair)
  then have fit: "fit fw compile_call w0 (fit_call p) = Inr (w1, h)"
    by (simp add: fit_def fit_call_def)
  from fit_loop_history [OF f c log_names_script]
  have "dom (history h) = {''loss'', ''accuracy'', ''val_loss'', ''val_accuracy''}"
    by simp
  then have "''loss'' \<in> dom (history h)" "''val_loss'' \<in> dom (history h)"
    "''accuracy'' \<in> dom (history h)" "''val_accuracy'' \<in> dom (history h)"
    by simp_all
  then obtain l vl a va where "history h ''loss'' = Some l" "history h ''val_loss'' = Some vl"
    "history h ''accuracy'' = Some a" "history h ''val_accuracy'' = Some va"
    by blast
  then obtain fg ax where ax: "plot_history h = Inr (fg, ax)"
    using plot_history_Inr [of h] by blast
  show ?thesis
    by (simp add: script_def assms(1) pre u w0 fit ax Let_def)
qed

lemma build_model_layers:
  "build_model sh =
     [Resizing 224 224 ''bilinear'' (drop 1 sh),
      Conv2D 96 11 4 ''same'', Lambda ''tf.nn.local_response_normalization'',
      Activation ''relu'', MaxPooling2D 3 2,
      Conv2D 256 5 4 ''same'', Lambda ''tf.nn.local_response_normalization'',
      Activation ''relu'', MaxPooling2D 3 2,
      Conv2D 384 3 4 ''same'', Activation ''relu'',
      Conv2D 384 3 4 ''same'', Activation ''relu'',
      Conv2D 256 3 4 ''same'', Activation ''relu'',
      Flatten,
      Dense 4096 ''relu'', Dropout (1 / 2),
      Dense 4096 ''relu'', Dropout (1 / 2),
      Dense 10 ''softmax'']"
  by (simp add: build_model_def Sequential_def add_def Let_def)

lemma fit_loop_ignores_evaluate:
  "fit_loop (fw\<lparr>model_evaluate := ev\<rparr>) cargs a e k w h = fit_loop fw cargs a e k w h"
  by (induction k arbitrary: e w h) (simp_all add: Let_def cong: if_cong)

lemma preprocess_ignores_test:
  assumes "preprocess d = Inr p" and "length (shape xt) = 3"
  shows "\<exists>p'. preprocess (d\<lparr>x_test := xt, y_test := yt\<rparr>) = Inr p'
     \<and> x_train p' = x_train p \<and> y_train p' = y_train p
     \<and> x_val p' = x_val p \<and> y_val p' = y_val p"
proof -
  from assms(1) obtain d1 d2 d3 where
    a: "pad_scale d = Inr d1" and b: "expand d1 = Inr d2"
    and c: "replicate_channels d2 = Inr d3" and s: "validation_split d3 = Inr p"
    by (auto simp: preprocess_def and_then_eq_Inr)
  from a assms(2) obtain d1' where
    a': "pad_scale (d\<lparr>x_test := xt, y_test := yt\<rparr>) = Inr d1'"
    and a1: "x_train d1' = x_train d1" "y_train d1' = y_train d1" "length (shape (x_test d1')) = 3"
    by (auto simp: pad_scale_def and_then_eq_Inr tf_pad_def truediv_def Let_def split: if_splits)
  from b a1 obtain d2' where
    b': "expand d1' = Inr d2'"
    and b1: "x_train d2' = x_train d2" "y_train d2' = y_train d2" "length (shape (x_test d2')) = 4"
    by (auto simp: expand_def and_then_eq_Inr tf_expand_dims_def split: if_splits)
  from c b1 obtain d3' where
    c': "replicate_channels d2' = Inr d3'"
    and c1: "x_train d3' = x_train d3" "y_train d3' = y_train d3"
    by (auto simp: replicate_channels_def and_then_eq_Inr tf_repeat_def split: if_splits)
  from s c1 obtain p' where
    s': "validation_split d3' = Inr p'"
    and s1: "x_train p' = x_train p" "y_train p' = y_train p" "x_val p' = x_val p" "y_val p' = y_val p"
    by (auto simp: validation_split_def and_then_eq_Inr)
  show ?thesis
    by (rule exI [of _ p']) (simp add: preprocess_def a' b' c' s' s1)
qed

lemma fit_loop_ignores_other_calls:
  "fit_loop (fw\<lparr>mnist_load_data := ld, model_evaluate := ev\<rparr>) cargs a e k w h
     = fit_loop fw cargs a e k w h"
  by (induction k arbitrary: e w h) (simp_all add: Let_def cong: if_cong)

section \<open>The preprocessed arrays\<close>

text \<open>
  Claim C2. Every loaded image of 28 by 28 pixels comes out of the preprocessing (two
  pixels of padding on each spatial side, a channel axis, the channel three times) with
  the shape 32 by 32 by 3, in the training, validation and test arrays alike, and this is
  the input shape the first layer of the model, the resizing layer, declares.
\<close>

theorem preprocessed_shape_is_model_input:
  assumes "mnist_shaped n m d"
  shows "\<exists>s. preprocess d = Inr s
     \<and> shape (x_train s) = [n - 2000, 32, 32, 3]
     \<and> shape (x_val s) = [n - (n - 2000), 32, 32, 3]
     \<and> shape (x_test s) = [m, 32, 32, 3]
     \<and> hd (build_model (shape (x_train s))) = Resizing 224 224 ''bilinear'' [32, 32, 3]
     \<and> drop 1 (shape (x_train s)) = [32, 32, 3]
     \<and> drop 1 (shape (x_val s)) = [32, 32, 3]
     \<and> drop 1 (shape (x_test s)) = [32, 32, 3]"
proof -
  note e = preprocess_elems [OF assms]
  show ?thesis
    by (rule exI [of _ "projr (preprocess d)"], intro conjI, rule e(1))
       (simp_all add: e(2-6) build_model_first)
qed

theorem preprocessed_shape_is_model_input_witness:
  "mnist_shaped 60000 10000 demo_data
   \<and> (\<exists>s. preprocess demo_data = Inr s
     \<and> shape (x_train s) = [58000, 32, 32, 3]
     \<and> shape (x_val s) = [2000, 32, 32, 3]
     \<and> shape (x_test s) = [10000, 32, 32, 3]
     \<and> hd (build_model (shape (x_train s))) = Resizing 224 224 ''bilinear'' [32, 32, 3])"
proof -
  have h: "mnist_shaped 60000 10000 demo_data"
    by (simp add: mnist_shaped_def demo_data_def)
  from preprocessed_shape_is_model_input [OF h] show ?thesis
    using h by auto
qed

text \<open>
  Claim C3. With at least 2000 training examples, the split takes the last 2000
  preprocessed training images and their labels as \<open>x_val\<close> and \<open>y_val\<close> and leaves the ones
  before them as \<open>x_train\<close> and \<open>y_train\<close>; the two index ranges are disjoint, and the new
  training arrays followed by the validation arrays are the preprocessed training arrays
  in their order.
\<close>

theorem validation_split_takes_last_2000:
  assumes "mnist_shaped n m d" and "2000 \<le> n"
  shows "\<exists>d1 d2 d3 s.
       pad_scale d = Inr d1 \<and> expand d1 = Inr d2 \<and> replicate_channels d2 = Inr d3
     \<and> validation_split d3 = Inr s \<and> preprocess d = Inr s
     \<and> shape (x_train d3) = [n, 32, 32, 3] \<and> shape (y_train d3) = [n]
     \<and> shape (x_val s) = [2000, 32, 32, 3] \<and> shape (y_val s) = [2000]
     \<and> shape (x_train s) = [n - 2000, 32, 32, 3] \<and> shape (y_train s) = [n - 2000]
     \<and> (\<forall>j r c k. elem (x_val s) [j, r, c, k] = elem (x_train d3) [j + (n - 2000), r, c, k])
     \<and> (\<forall>j. elem (y_val s) [j] = elem (y_train d3) [j + (n - 2000)])
     \<and> (\<forall>i r c k. elem (x_train s) [i, r, c, k] = elem (x_train d3) [i, r, c, k])
     \<and> (\<forall>i. elem (y_train s) [i] = elem (y_train d3) [i])
     \<and> slice_range (Slice None (Some (- 2000))) n = {0..<n - 2000}
     \<and> slice_range (Slice (Some (- 2000)) None) n = {n - 2000..<n}
     \<and> slice_range (Slice None (Some (- 2000))) n \<inter> slice_range (Slice (Some (- 2000)) None) n = {}
     \<and> slice_range (Slice None (Some (- 2000))) n \<union> slice_range (Slice (Some (- 2000)) None) n = {0..<n}
     \<and> same_tensor (concat0 (x_train s) (x_val s)) (x_train d3)
     \<and> same_tensor (concat0 (y_train s) (y_val s)) (y_train d3)"
proof -
  define d1 where "d1 = projr (pad_scale d)"
  define d2 where "d2 = projr (expand d1)"
  define d3 where "d3 = projr (replicate_channels d2)"
  define s where "s = projr (validation_split d3)"
  note st = preprocess_stages [OF assms(1), folded d1_def d2_def d3_def s_def]
  note sp = validation_split_ok [OF st(10) st(18), folded s_def]
  from assms(2) have lastn: "n - (n - 2000) = 2000" and total: "n - 2000 + 2000 = n"
    by simp_all
  have cx: "same_tensor (concat0 (x_train s) (x_val s)) (x_train d3)"
    using assms(2)
    by (auto simp: same_tensor_def concat0_def sp(2,4) st(10) total lastn valid_index4 sp(8,10))
  have cy: "same_tensor (concat0 (y_train s) (y_val s)) (y_train d3)"
    using assms(2)
    by (auto simp: same_tensor_def concat0_def sp(3,5) st(18) total lastn valid_index1 sp(9,11))
  have ranges: "{0..<n - 2000} \<inter> {n - 2000..<n} = {}" "{0..<n - 2000} \<union> {n - 2000..<n} = {0..<n}"
    using assms(2) by auto
  show ?thesis
    apply (rule exI [of _ d1], rule exI [of _ d2], rule exI [of _ d3], rule exI [of _ s])
    apply (intro conjI)
    apply (simp_all add: st(1-5) st(10) st(18) slice_range_to slice_range_from ranges cx cy
             sp(2-5) sp(8-11) lastn)
    done
qed

theorem validation_split_takes_last_2000_witness:
  "mnist_shaped 60000 10000 demo_data \<and> (2000 :: nat) \<le> 60000
   \<and> (\<exists>d3 s. validation_split d3 = Inr s \<and> preprocess demo_data = Inr s
        \<and> shape (x_val s) = [2000, 32, 32, 3] \<and> shape (y_val s) = [2000]
        \<and> shape (x_train s) = [58000, 32, 32, 3] \<and> shape (y_train s) = [58000]
        \<and> elem (y_val s) [0] = elem (y_train d3) [58000]
        \<and> same_tensor (concat0 (x_train s) (x_val s)) (x_train d3))"
proof -
  have h: "mnist_shaped 60000 10000 demo_data"
    by (simp add: mnist_shaped_def demo_data_def)
  from validation_split_takes_last_2000 [OF h] obtain d1 d2 d3 s where
    "validation_split d3 = Inr s" "preprocess demo_data = Inr s"
    "shape (x_val s) = [2000, 32, 32, 3]" "shape (y_val s) = [2000]"
    "shape (x_train s) = [60000 - 2000, 32, 32, 3]" "shape (y_train s) = [60000 - 2000]"
    "\<forall>j. elem (y_val s) [j] = elem (y_train d3) [j + (60000 - 2000)]"
    "same_tensor (concat0 (x_train s) (x_val s)) (x_train d3)"
    by auto
  then show ?thesis
    using h by auto
qed

text \<open>
  Claim C7. Padding, scaling, the new channel axis, the replication of the channel and the
  validation split each leave as many images as labels in every set, and the image at
  index \<open>i\<close> is computed from the image loaded at index \<open>i\<close> while the label at index \<open>i\<close> is
  the label loaded at index \<open>i\<close> (for the validation set, both shifted by the same offset).
\<close>

theorem pairing_preserved:
  assumes "mnist_shaped n m d"
  shows "\<exists>p q d1 d2 d3 s.
       tf_pad (x_train d) [(0, 0), (2, 2), (2, 2)] = Inr p
     \<and> tf_pad (x_test d) [(0, 0), (2, 2), (2, 2)] = Inr q
     \<and> pad_scale d = Inr d1 \<and> expand d1 = Inr d2 \<and> replicate_channels d2 = Inr d3
     \<and> validation_split d3 = Inr s \<and> preprocess d = Inr s
     \<and> shape p = [n, 32, 32] \<and> shape q = [m, 32, 32]
     \<and> shape (x_train d1) = [n, 32, 32] \<and> shape (y_train d1) = [n]
     \<and> shape (x_test d1) = [m, 32, 32] \<and> shape (y_test d1) = [m]
     \<and> shape (x_train d2) = [n, 32, 32, 1] \<and> shape (y_train d2) = [n]
     \<and> shape (x_test d2) = [m, 32, 32, 1] \<and> shape (y_test d2) = [m]
     \<and> shape (x_train d3) = [n, 32, 32, 3] \<and> shape (y_train d3) = [n]
     \<and> shape (x_test d3) = [m, 32, 32, 3] \<and> shape (y_test d3) = [m]
     \<and> shape (x_train s) = [n - 2000, 32, 32, 3] \<and> shape (y_train s) = [n - 2000]
     \<and> shape (x_val s) = [n - (n - 2000), 32, 32, 3] \<and> shape (y_val s) = [n - (n - 2000)]
     \<and> shape (x_test s) = [m, 32, 32, 3] \<and> shape (y_test s) = [m]
     \<and> y_train d1 = y_train d \<and> y_test d1 = y_test d
     \<and> y_train d2 = y_train d \<and> y_test d2 = y_test d
     \<and> y_train d3 = y_train d \<and> y_test d3 = y_test d
     \<and> y_test s = y_test d
     \<and> (\<forall>i. elem (y_train s) [i] = elem (y_train d) [i])
     \<and> (\<forall>j. elem (y_val s) [j] = elem (y_train d) [j + (n - 2000)])
     \<and> (\<forall>i r c. elem p [i, r, c] =
           (if i < n \<and> 2 \<le> r \<and> r < 30 \<and> 2 \<le> c \<and> c < 30
            then elem (x_train d) [i, r - 2, c - 2] else 0))
     \<and> (\<forall>i r c. elem q [i, r, c] =
           (if i < m \<and> 2 \<le> r \<and> r < 30 \<and> 2 \<le> c \<and> c < 30
            then elem (x_test d) [i, r - 2, c - 2] else 0))
     \<and> (\<forall>i r c. elem (x_train d1) [i, r, c] = real (unat (elem p [i, r, c])) / 255)
     \<and> (\<forall>i r c. elem (x_test d1) [i, r, c] = real (unat (elem q [i, r, c])) / 255)
     \<and> (\<forall>i r c k. elem (x_train d2) [i, r, c, k] = elem (x_train d1) [i, r, c])
     \<and> (\<forall>i r c k. elem (x_test d2) [i, r, c, k] = elem (x_test d1) [i, r, c])
     \<and> (\<forall>i r c k. elem (x_train d3) [i, r, c, k] = elem (x_train d2) [i, r, c, k div 3])
     \<and> (\<forall>i r c k. elem (x_test d3) [i, r, c, k] = elem (x_test d2) [i, r, c, k div 3])
     \<and> (\<forall>i r c k. elem (x_train s) [i, r, c, k] = elem (x_train d3) [i, r, c, k])
     \<and> (\<forall>j r c k. elem (x_val s) [j, r, c, k] = elem (x_train d3) [j + (n - 2000), r, c, k])
     \<and> x_test s = x_test d3"
proof -
  define p where "p = projr (tf_pad (x_train d) [(0, 0), (2, 2), (2, 2)])"
  define q where "q = projr (tf_pad (x_test d) [(0, 0), (2, 2), (2, 2)])"
  define d1 where "d1 = projr (pad_scale d)"
  define d2 where "d2 = projr (expand d1)"
  define d3 where "d3 = projr (replicate_channels d2)"
  define s where "s = projr (validation_split d3)"
  from assms have sh: "shape (x_train d) = [n, 28, 28]" "shape (x_test d) = [m, 28, 28]"
    "shape (y_train d) = [n]" "shape (y_test d) = [m]"
    by (simp_all add: mnist_shaped_def)
  note pp = tf_pad_images [OF sh(1), folded p_def]
  note pq = tf_pad_images [OF sh(2), folded q_def]
  note ps = pad_scale_ok [OF assms, folded d1_def p_def q_def]
  note st = preprocess_stages [OF assms, folded d1_def d2_def d3_def s_def]
  note ex = expand_ok [OF st(6,7), folded d2_def]
  note rp = replicate_channels_ok [OF st(8,9), folded d3_def]
  note sp = validation_split_ok [OF st(10) st(18), folded s_def]
  show ?thesis
    apply (rule exI [of _ p], rule exI [of _ q])
    apply (rule exI [of _ d1], rule exI [of _ d2], rule exI [of _ d3], rule exI [of _ s])
    apply (intro conjI)
    apply (simp_all add: pp pq st sh ex(6,7) rp(6,7) sp(2-11) ps(2,3) truediv_def del: of_nat_unat)
    done
qed

theorem pairing_preserved_witness:
  "mnist_shaped 60000 10000 demo_data
   \<and> (\<exists>s. preprocess demo_data = Inr s
        \<and> shape (x_train s) = [58000, 32, 32, 3] \<and> shape (y_train s) = [58000]
        \<and> shape (x_val s) = [2000, 32, 32, 3] \<and> shape (y_val s) = [2000]
        \<and> shape (x_test s) = [10000, 32, 32, 3] \<and> shape (y_test s) = [10000]
        \<and> elem (y_train s) [12] = 2 \<and> elem (y_val s) [12] = 2)"
proof -
  have h: "mnist_shaped 60000 10000 demo_data"
    by (simp add: mnist_shaped_def demo_data_def)
  from pairing_preserved [OF h] show ?thesis
    apply (elim exE conjE)
    subgoal for p q d1 d2 d3 s
      apply (intro conjI, rule h)
      apply (rule exI [of _ s])
      apply (simp add: demo_data_def)
      done
    done
qed





section \<open>The model, the training and the plots\<close>

text \<open>
  Claim C4. The model is one sequential stack, in this order: a resizing layer; five
  convolutions with 96, 256, 384, 384 and 256 filters; two local response normalisations;
  two max-poolings; a flatten layer; two dense layers of 4096 units, each followed by a
  dropout of rate 0.5; and last a dense layer of 10 units with softmax.
\<close>

theorem model_is_the_listed_stack:
  "build_model sh =
     [Resizing 224 224 ''bilinear'' (drop 1 sh),
      Conv2D 96 11 4 ''same'', Lambda ''tf.nn.local_response_normalization'',
      Activation ''relu'', MaxPooling2D 3 2,
      Conv2D 256 5 4 ''same'', Lambda ''tf.nn.local_response_normalization'',
      Activation ''relu'', MaxPooling2D 3 2,
      Conv2D 384 3 4 ''same'', Activation ''relu'',
      Conv2D 384 3 4 ''same'', Activation ''relu'',
      Conv2D 256 3 4 ''same'', Activation ''relu'',
      Flatten,
      Dense 4096 ''relu'', Dropout (1 / 2),
      Dense 4096 ''relu'', Dropout (1 / 2),
      Dense 10 ''softmax'']
   \<and> count_list (map kind (build_model sh)) ''Resizing'' = 1
   \<and> conv_filters (build_model sh) = [96, 256, 384, 384, 256]
   \<and> count_list (build_model sh) (Lambda ''tf.nn.local_response_normalization'') = 2
   \<and> count_list (map kind (build_model sh)) ''Lambda'' = 2
   \<and> count_list (map kind (build_model sh)) ''MaxPooling2D'' = 2
   \<and> count_list (map kind (build_model sh)) ''Flatten'' = 1
   \<and> dense_units (build_model sh) = [4096, 4096, 10]
   \<and> map snd (filter (\<lambda>(a, b). a = Dense 4096 ''relu'') (successors (build_model sh)))
         = [Dropout (1 / 2), Dropout (1 / 2)]
   \<and> count_list (map kind (build_model sh)) ''Dropout'' = 2
   \<and> last (build_model sh) = Dense 10 ''softmax''"
  unfolding build_model_layers by simp

theorem model_is_the_listed_stack_witness:
  "conv_filters (build_model [58000, 32, 32, 3]) = [96, 256, 384, 384, 256]
   \<and> dense_units (build_model [58000, 32, 32, 3]) = [4096, 4096, 10]
   \<and> hd (build_model [58000, 32, 32, 3]) = Resizing 224 224 ''bilinear'' [32, 32, 3]
   \<and> last (build_model [58000, 32, 32, 3]) = Dense 10 ''softmax''
   \<and> length (build_model [58000, 32, 32, 3]) = 21"
  using model_is_the_listed_stack [of "[58000, 32, 32, 3]"] by simp

text \<open>
  Claim C5. \<^verbatim>\<open>model.fit\<close> is called with 40 epochs, batches of 64 and no callback, whatever
  the data, so when no framework call raises the run ends and the trainer has run the
  epochs 0 to 39, each logged once under every name.
\<close>

theorem training_runs_forty_epochs:
  assumes "mnist_load_data fw = Inr d" and "mnist_shaped n m d"
    and "\<forall>ls. \<exists>u. model_summary fw ls = Inr u"
    and "\<forall>ls c. \<exists>w. model_compile fw ls c = Inr w"
    and "\<forall>w a e. \<exists>r. model_train_epoch fw w a e = Inr r"
  shows "\<exists>out. script fw = Inr out
     \<and> epochs (fit_call (prepared out)) = 40 \<and> batch_size (fit_call (prepared out)) = 64
     \<and> callbacks (fit_call (prepared out)) = []
     \<and> (\<forall>p. epochs (fit_call p) = 40 \<and> batch_size (fit_call p) = 64 \<and> callbacks (fit_call p) = [])
     \<and> epoch (fit_history out) = [0..<40]
     \<and> length (epoch (fit_history out)) = 40
     \<and> length (logged (fit_history out) ''loss'') = 40
     \<and> length (logged (fit_history out) ''accuracy'') = 40
     \<and> length (logged (fit_history out) ''val_loss'') = 40
     \<and> length (logged (fit_history out) ''val_accuracy'') = 40"
proof -
  from script_runs [OF assms] obtain out where out: "script fw = Inr out"
    by blast
  note h = script_history [OF out]
  show ?thesis
    by (rule exI [of _ out]) (simp add: out h fit_call_def)
qed

theorem training_runs_forty_epochs_witness:
  "mnist_load_data demo_framework = Inr demo_data \<and> mnist_shaped 60000 10000 demo_data
   \<and> (\<exists>out. script demo_framework = Inr out \<and> epoch (fit_history out) = [0..<40]
        \<and> length (logged (fit_history out) ''val_accuracy'') = 40)"
proof -
  have l: "mnist_load_data demo_framework = Inr demo_data"
    by (simp add: demo_framework_def)
  have h: "mnist_shaped 60000 10000 demo_data"
    by (simp add: mnist_shaped_def demo_data_def)
  have s: "\<forall>ls. \<exists>u. model_summary demo_framework ls = Inr u"
    and c: "\<forall>ls c. \<exists>w. model_compile demo_framework ls c = Inr w"
    and t: "\<forall>w a e. \<exists>r. model_train_epoch demo_framework w a e = Inr r"
    by (simp_all add: demo_framework_def)
  from training_runs_forty_epochs [OF l h s c t] show ?thesis
    apply (elim exE conjE)
    subgoal for out
      apply (intro conjI, rule l, rule h)
      apply (rule exI [of _ out])
      apply (intro conjI; assumption)
      done
    done
qed

text \<open>
  Claim C6. When the script ends, the first axes hold the loss and the validation loss of
  the history, the second the accuracy and the validation accuracy, these four are the
  series the history has, and there is no other axes and no other line.
\<close>

theorem plots_exactly_the_four_history_series:
  assumes "script fw = Inr out"
  shows "\<exists>l vl a va.
       history (fit_history out) ''loss'' = Some l
     \<and> history (fit_history out) ''val_loss'' = Some vl
     \<and> history (fit_history out) ''accuracy'' = Some a
     \<and> history (fit_history out) ''val_accuracy'' = Some va
     \<and> dom (history (fit_history out)) = {''loss'', ''val_loss'', ''accuracy'', ''val_accuracy''}
     \<and> map lines (axs out) = [[l, vl], [a, va]]
     \<and> map title (axs out)
          = [''Training Loss vs Validation Loss'', ''Training Accuracy vs Validation Accuracy'']
     \<and> map legend (axs out) = [[''Train'', ''Val''], [''Train'', ''Val'']]"
proof -
  from script_Inr [OF assms] have "plot_history (fit_history out) = Inr (fig out, axs out)"
    by blast
  then obtain l vl a va where
    "history (fit_history out) ''loss'' = Some l" "history (fit_history out) ''val_loss'' = Some vl"
    "history (fit_history out) ''accuracy'' = Some a" "history (fit_history out) ''val_accuracy'' = Some va"
    "axs out = [\<lparr>lines = [l, vl], title = ''Training Loss vs Validation Loss'',
                   xlabel = ''Epochs'', ylabel = ''Loss'', legend = [''Train'', ''Val'']\<rparr>,
                 \<lparr>lines = [a, va], title = ''Training Accuracy vs Validation Accuracy'',
                   xlabel = ''Epochs'', ylabel = ''Accuracy'', legend = [''Train'', ''Val'']\<rparr>]"
    unfolding plot_history_Inr by blast
  moreover have "dom (history (fit_history out)) = {''loss'', ''val_loss'', ''accuracy'', ''val_accuracy''}"
    by (auto simp: script_history(2) [OF assms])
  ultimately show ?thesis
    by simp
qed

theorem plots_exactly_the_four_history_series_witness:
  "\<exists>out l vl a va. script demo_framework = Inr out
     \<and> history (fit_history out) ''loss'' = Some l
     \<and> history (fit_history out) ''val_loss'' = Some vl
     \<and> history (fit_history out) ''accuracy'' = Some a
     \<and> history (fit_history out) ''val_accuracy'' = Some va
     \<and> map lines (axs out) = [[l, vl], [a, va]]"
proof -
  have l: "mnist_load_data demo_framework = Inr demo_data"
    by (simp add: demo_framework_def)
  have h: "mnist_shaped 60000 10000 demo_data"
    by (simp add: mnist_shaped_def demo_data_def)
  have s: "\<forall>ls. \<exists>u. model_summary demo_framework ls = Inr u"
    and c: "\<forall>ls c. \<exists>w. model_compile demo_framework ls c = Inr w"
    and t: "\<forall>w a e. \<exists>r. model_train_epoch demo_framework w a e = Inr r"
    by (simp_all add: demo_framework_def)
  from script_runs [OF l h s c t] obtain out where out: "script demo_framework = Inr out"
    by (elim exE)
  from plots_exactly_the_four_history_series [OF out] show ?thesis
    apply (elim exE conjE)
    subgoal for l vl a va
      apply (rule exI [of _ out], rule exI [of _ l], rule exI [of _ vl])
      apply (rule exI [of _ a], rule exI [of _ va])
      apply (intro conjI, rule out; assumption)
      done
    done
qed

text \<open>
  Claim C1 says that the script evaluates the trained model on the test set. It does
  not. No statement calls \<^verbatim>\<open>evaluate\<close>: the run is the same whatever \<^verbatim>\<open>evaluate\<close> of the
  framework would return. And the test arrays reach no call after their preprocessing: a
  run on other test arrays builds the same model and leaves the same weights, the same
  history and the same plots. The docstring of line 124 reports a test accuracy that no
  statement computes.
\<close>

theorem script_never_evaluates:
  assumes "script fw = Inr out" and "mnist_load_data fw = Inr d" and "length (shape xt) = 3"
  shows "script (fw\<lparr>model_evaluate := ev\<rparr>) = script fw
     \<and> (\<exists>out'. script (fw\<lparr>mnist_load_data := Inr (d\<lparr>x_test := xt, y_test := yt\<rparr>),
                             model_evaluate := ev\<rparr>) = Inr out'
          \<and> x_train (prepared out') = x_train (prepared out)
          \<and> y_train (prepared out') = y_train (prepared out)
          \<and> x_val (prepared out') = x_val (prepared out)
          \<and> y_val (prepared out') = y_val (prepared out)
          \<and> model out' = model out \<and> weights out' = weights out
          \<and> fit_history out' = fit_history out
          \<and> fig out' = fig out \<and> axs out' = axs out)"
proof
  show "script (fw\<lparr>model_evaluate := ev\<rparr>) = script fw"
    by (simp add: script_def fit_def fit_loop_ignores_evaluate)
next
  let ?fw = "fw\<lparr>mnist_load_data := Inr (d\<lparr>x_test := xt, y_test := yt\<rparr>), model_evaluate := ev\<rparr>"
  from script_Inr [OF assms(1)] assms(2) obtain u w0 where
    p: "preprocess d = Inr (prepared out)"
    and m: "model out = build_model (shape (x_train (prepared out)))"
    and u: "model_summary fw (model out) = Inr u"
    and w0: "model_compile fw (model out) compile_call = Inr w0"
    and f: "fit fw compile_call w0 (fit_call (prepared out)) = Inr (weights out, fit_history out)"
    and a: "plot_history (fit_history out) = Inr (fig out, axs out)"
    by auto
  from preprocess_ignores_test [OF p assms(3)] obtain p' where
    p': "preprocess (d\<lparr>x_test := xt, y_test := yt\<rparr>) = Inr p'"
    and same: "x_train p' = x_train (prepared out)" "y_train p' = y_train (prepared out)"
      "x_val p' = x_val (prepared out)" "y_val p' = y_val (prepared out)"
    by blast
  have c: "fit_call p' = fit_call (prepared out)"
    by (simp add: fit_call_def same)
  have f': "fit ?fw compile_call w0 (fit_call p') = Inr (weights out, fit_history out)"
    using f by (simp add: fit_def fit_loop_ignores_other_calls c)
  have "script ?fw = Inr \<lparr>prepared = p', model = model out, weights = weights out,
      fit_history = fit_history out, fig = fig out, axs = axs out\<rparr>"
    using u w0 by (simp add: script_def p' same m [symmetric] f' a Let_def)
  then show "\<exists>out'. script ?fw = Inr out'
          \<and> x_train (prepared out') = x_train (prepared out)
          \<and> y_train (prepared out') = y_train (prepared out)
          \<and> x_val (prepared out') = x_val (prepared out)
          \<and> y_val (prepared out') = y_val (prepared out)
          \<and> model out' = model out \<and> weights out' = weights out
          \<and> fit_history out' = fit_history out
          \<and> fig out' = fig out \<and> axs out' = axs out"
    by (simp add: same)
qed

theorem script_never_evaluates_witness:
  "\<exists>out out'. script demo_framework = Inr out
     \<and> script (demo_framework\<lparr>mnist_load_data :=
                   Inr (demo_data\<lparr>x_test := other_test_images, y_test := other_test_labels\<rparr>),
                 model_evaluate := (\<lambda>w x y. Inl (FrameworkError ''evaluate''))\<rparr>) = Inr out'
     \<and> model out' = model out \<and> weights out' = weights out
     \<and> fit_history out' = fit_history out \<and> axs out' = axs out"
proof -
  have l: "mnist_load_data demo_framework = Inr demo_data"
    by (simp add: demo_framework_def)
  have h: "mnist_shaped 60000 10000 demo_data"
    by (simp add: mnist_shaped_def demo_data_def)
  have s: "\<forall>ls. \<exists>u. model_summary demo_framework ls = Inr u"
    and c: "\<forall>ls c. \<exists>w. model_compile demo_framework ls c = Inr w"
    and t: "\<forall>w a e. \<exists>r. model_train_epoch demo_framework w a e = Inr r"
    by (simp_all add: demo_framework_def)
  from script_runs [OF l h s c t] obtain out where out: "script demo_framework = Inr out"
    by (elim exE)
  have r: "length (shape other_test_images) = 3"
    by (simp add: other_test_images_def)
  from script_never_evaluates [OF out l r, of "\<lambda>w x y. Inl (FrameworkError ''evaluate'')" other_test_labels]
  show ?thesis
    apply (elim exE conjE)
    subgoal for out'
      apply (rule exI [of _ out], rule exI [of _ out'])
      apply (intro conjI, rule out; assumption)
      done
    done
qed




end
